theory Spec2Isabelle
  imports Main
begin

section \<open>Values of the host language\<close>

text \<open>
  An optional string is \<open>string option\<close> (\<open>None\<close> is \<open>undefined\<close>). A string is falsy
  exactly when it is empty, an optional object exactly when it is \<open>undefined\<close>. The
  operator \<open>a || b\<close> yields \<open>b\<close> when \<open>a\<close> is falsy and \<open>a\<close> otherwise.
\<close>

definition truthy_string :: "string \<Rightarrow> bool" where
  "truthy_string s = (s \<noteq> [])"

definition truthy_object :: "'a option \<Rightarrow> bool" where
  "truthy_object v = (case v of None \<Rightarrow> False | Some x \<Rightarrow> True)"

definition js_or :: "string option \<Rightarrow> string \<Rightarrow> string" where
  "js_or v d = (case v of None \<Rightarrow> d | Some s \<Rightarrow> if truthy_string s then s else d)"

text \<open>\<open>Array.prototype.flat()\<close> on an array of arrays: one level of nesting is removed,
  outer order first, inner order second.\<close>

fun flat :: "'a list list \<Rightarrow> 'a list" where
  "flat [] = []"
| "flat (xs # xss) = xs @ flat xss"

section \<open>Shapes consumed from the upstream API\<close>

record ProfileView =
  handle :: string
  displayName :: "string option"
  avatar :: "string option"
  description :: "string option"

record PostView =
  author :: ProfileView
  record_text :: string
  likeCount :: "nat option"

text \<open>The repost marker and the reply marker of a feed entry are objects; only their
  presence is inspected by the program.\<close>

datatype ReasonRepost = ReasonRepost ProfileView

datatype ReplyRef = ReplyRef PostView PostView

record FeedViewPost =
  post :: PostView
  reply :: "ReplyRef option"
  reason :: "ReasonRepost option"

text \<open>Every paged response carries the cursor of the next page (\<open>None\<close>: no further page).\<close>

record paged =
  cursor :: "string option"

record searchActors_output = paged +
  actors :: "ProfileView list"

record getFollowers_output = paged +
  followers :: "ProfileView list"

record feed_output = paged +
  feed :: "FeedViewPost list"

text \<open>The calls the program issues to the API agent, with the arguments it passes. The
  last argument is the \<open>cursor\<close> property of the call's parameter object (\<open>None\<close>: the
  property is not given).\<close>

datatype api_call =
  GetProfile string
| SearchActors string "string option"
| GetAuthorFeed string nat "string option"
| GetFeed string nat "string option"
| GetFollowers string "string option"

fun call_cursor :: "api_call \<Rightarrow> string option" where
  "call_cursor (GetProfile a) = None"
| "call_cursor (SearchActors q c) = c"
| "call_cursor (GetAuthorFeed a l c) = c"
| "call_cursor (GetFeed f l c) = c"
| "call_cursor (GetFollowers a c) = c"

section \<open>The queries\<close>

subsection \<open>Page functions: the request made for a page parameter\<close>

text \<open>\<open>routes/search\<close>: \<open>queryFn: async () => atpAgent.searchActors({ q: debouncedSearchTerm.current })\<close>.
  The function takes no argument: the page parameter handed over by the query library is
  not read.\<close>

definition searchQuery_request :: "string \<Rightarrow> string \<Rightarrow> api_call" where
  "searchQuery_request debouncedSearchTerm pageParam = SearchActors debouncedSearchTerm None"

text \<open>\<open>routes/p/[handle]\<close>: \<open>getAuthorFeed({ actor: handle, limit: 10, cursor: pageParam })\<close>.\<close>

definition authorFeedQuery_request :: "string \<Rightarrow> string \<Rightarrow> api_call" where
  "authorFeedQuery_request handle' pageParam = GetAuthorFeed handle' 10 (Some pageParam)"

text \<open>Home page: \<open>getFeed({ feed: ..., limit: 10, cursor: pageParam })\<close>.\<close>

definition svelteFeed_uri :: string where
  "svelteFeed_uri = ''at://did:plc:ezyrzvz3yoglekd4j2szmiys/app.bsky.feed.generator/svelte-feed''"

definition svelteFeedQuery_request :: "string \<Rightarrow> api_call" where
  "svelteFeedQuery_request pageParam = GetFeed svelteFeed_uri 10 (Some pageParam)"

text \<open>Home page: \<open>getFollowers({ actor: debouncedHandle.current, cursor: pageParam })\<close>.\<close>

definition followingQuery_request :: "string \<Rightarrow> string \<Rightarrow> api_call" where
  "followingQuery_request debouncedHandle pageParam = GetFollowers debouncedHandle (Some pageParam)"

text \<open>The page function of a query sends its request to the agent and returns the data.\<close>

definition queryFn :: "(api_call \<Rightarrow> 'p) \<Rightarrow> (string \<Rightarrow> api_call) \<Rightarrow> string \<Rightarrow> 'p" where
  "queryFn agent request pageParam = agent (request pageParam)"

text \<open>\<open>getNextPageParam: (lastPage) => lastPage.cursor\<close>, the same in every infinite query.\<close>

definition getNextPageParam :: "'a paged_scheme \<Rightarrow> string option" where
  "getNextPageParam lastPage = cursor lastPage"

subsection \<open>Output transforms\<close>

text \<open>\<open>select: (data) => data.pages.map((page) => page.actors).flat()\<close>\<close>

definition searchQuery_select :: "searchActors_output list \<Rightarrow> ProfileView list" where
  "searchQuery_select pages = flat (map actors pages)"

text \<open>\<open>select: (data) => data.pages.map((page) => page.followers).flat()\<close>\<close>

definition followingQuery_select :: "getFollowers_output list \<Rightarrow> ProfileView list" where
  "followingQuery_select pages = flat (map followers pages)"

text \<open>\<open>select: (data) => data.pages.map((page) => page.feed).flat()\<close>\<close>

definition svelteFeedQuery_select :: "feed_output list \<Rightarrow> FeedViewPost list" where
  "svelteFeedQuery_select pages = flat (map feed pages)"

text \<open>\<open>select: (data) => data.pages.map((page) => page.feed).flat()
        .filter((post) => !post.reason && !post.reply)\<close>\<close>

definition authorFeedQuery_select :: "feed_output list \<Rightarrow> FeedViewPost list" where
  "authorFeedQuery_select pages =
     filter (\<lambda>p. \<not> truthy_object (reason p) \<and> \<not> truthy_object (reply p)) (flat (map feed pages))"


subsection \<open>Paging\<close>

text \<open>
  Modelled from the spec: the paged query executor of the query library, which the
  repository calls and does not contain (section 4.2). The first observation of a key
  fetches the page of the initial page parameter (\<open>initialPageParam: ""\<close> in every
  infinite query of the program); \<open>fetchNextPage\<close> hands the last page's cursor, as
  returned by \<open>getNextPageParam\<close>, to the page function and appends the page it returns,
  and does nothing when that cursor is absent.
\<close>

definition initialPageParam :: string where
  "initialPageParam = []"

definition fetchFirstPage :: "(string \<Rightarrow> 'p) \<Rightarrow> 'p list" where
  "fetchFirstPage fetchPage = [fetchPage initialPageParam]"

definition fetchNextPage :: "(string \<Rightarrow> 'a paged_scheme) \<Rightarrow> 'a paged_scheme list \<Rightarrow> 'a paged_scheme list" where
  "fetchNextPage fetchPage pages =
     (if pages = [] then pages
      else case getNextPageParam (last pages) of
             None \<Rightarrow> pages
           | Some c \<Rightarrow> pages @ [fetchPage c])"

text \<open>An upstream with two pages of actors, the second one reached through the cursor
  \<open>c1\<close> of the first.\<close>

definition zeu_dev :: ProfileView where
  "zeu_dev = \<lparr>handle = ''zeu.dev'', displayName = None, avatar = None, description = None\<rparr>"

definition zeufan :: ProfileView where
  "zeufan = \<lparr>handle = ''zeufan.bsky.social'', displayName = None, avatar = None, description = None\<rparr>"

definition two_page_agent :: "api_call \<Rightarrow> searchActors_output" where
  "two_page_agent call =
     (if call_cursor call = Some ''c1'' then \<lparr>cursor = None, actors = [zeufan]\<rparr>
      else \<lparr>cursor = Some ''c1'', actors = [zeu_dev]\<rparr>)"

section \<open>The table pages: sorting and filter state\<close>

text \<open>A sorting state is a list of column sorts \<open>{ id, desc }\<close>. An updater handed to
  \<open>onSortingChange\<close> is either a function of the old state or a new state.\<close>

type_synonym SortingState = "(string \<times> bool) list"

datatype 'a Updater = UpdaterFn "'a \<Rightarrow> 'a" | UpdaterValue 'a

text \<open>
  The state of a page with a table: the pages held by the infinite query that feeds the
  table (\<open>None\<close> while the query has no data), the \<open>sorting\<close> variable, the \<open>sorting\<close> entry
  of the table options, the text of the table's search input and the global filter of
  the table.
\<close>

record 'p table_page =
  query_pages :: "'p list option"
  sorting :: SortingState
  options_state_sorting :: SortingState
  tableSearchTerm :: string
  globalFilter :: string

text \<open>
  \<open>const setSorting = updater => {
      if (updater instanceof Function) { sorting = updater(sorting) } else { sorting = updater }
      options.state.sorting = sorting; }\<close>
\<close>

definition setSorting :: "SortingState Updater \<Rightarrow> 'p table_page \<Rightarrow> 'p table_page" where
  "setSorting updater st =
     (let sorting' = (case updater of UpdaterFn f \<Rightarrow> f (sorting st) | UpdaterValue v \<Rightarrow> v)
      in st\<lparr>sorting := sorting', options_state_sorting := sorting'\<rparr>)"

text \<open>The search input is bound to \<open>tableSearchTerm\<close>; the effect that follows a change
  calls \<open>$table.setGlobalFilter(tableSearchTerm)\<close>.\<close>

definition input_tableSearchTerm :: "string \<Rightarrow> 'p table_page \<Rightarrow> 'p table_page" where
  "input_tableSearchTerm v st = st\<lparr>tableSearchTerm := v\<rparr>"

definition effect_setGlobalFilter :: "'p table_page \<Rightarrow> 'p table_page" where
  "effect_setGlobalFilter st = st\<lparr>globalFilter := tableSearchTerm st\<rparr>"

text \<open>\<open>data: $followingQuery.data || []\<close> (and the same with \<open>$authorFeedQuery\<close>): the
  selected data of the query, the empty array while there is none.\<close>

definition options_data :: "('p list \<Rightarrow> 'r list) \<Rightarrow> 'p table_page \<Rightarrow> 'r list" where
  "options_data select st = (case query_pages st of None \<Rightarrow> [] | Some pages \<Rightarrow> select pages)"

section \<open>Rendering\<close>

text \<open>The markup produced by the templates, without styling. \<open>Img src alt\<close>, \<open>A href
  children\<close>, \<open>Button disabled children\<close>; \<open>Description v\<close> is the paragraph that labels the
  value of \<open>profile.description\<close>; \<open>Spinner\<close> is the paragraph with the rotating arrow.\<close>

datatype markup =
  P string
| Text string
| Img "string option" string
| A string "markup list"
| Output "markup list"
| Div "markup list"
| Button bool "markup list"
| Description "string option"
| Spinner

text \<open>Snippet \<open>searchProfileDisplay(handle, avatar, displayName)\<close> of the search page.\<close>

definition searchProfileDisplay :: "string \<Rightarrow> string option \<Rightarrow> string option \<Rightarrow> markup" where
  "searchProfileDisplay handle' avatar' displayName' =
     A (''/p/'' @ handle')
       [Img avatar' (handle' @ '' avatar''),
        P (js_or displayName' ''N/A''),
        P (''@'' @ handle')]"

text \<open>Snippet \<open>basicProfileDisplay(handle, avatar, displayName)\<close> of the profile page and of
  the home page.\<close>

definition basicProfileDisplay :: "string \<Rightarrow> string option \<Rightarrow> string option \<Rightarrow> markup list" where
  "basicProfileDisplay handle' avatar' displayName' =
     [Img avatar' (handle' @ '' avatar''),
      P (js_or displayName' ''N/A''),
      P (''@'' @ handle')]"

definition detailedProfileDisplay :: "ProfileView \<Rightarrow> markup" where
  "detailedProfileDisplay profile =
     Output (basicProfileDisplay (handle profile) (avatar profile) (displayName profile)
             @ [Description (description profile)])"

text \<open>Snippet \<open>postDisplay(post)\<close> of the home page.\<close>

definition postDisplay :: "PostView \<Rightarrow> markup" where
  "postDisplay p =
     Output (basicProfileDisplay (handle (author p)) (avatar (author p)) (displayName (author p))
             @ [P (record_text p)])"

subsection \<open>Query results\<close>

text \<open>
  The result a query store exposes, as the query library types it: pending, failed
  without data, failed on a re-fetch with the earlier data kept, or successful.
  An error is represented by its message.
\<close>

datatype 'd query_status =
  Pending
| LoadingError string
| RefetchError 'd string
| Success 'd

record 'd query_result =
  status :: "'d query_status"
  isFetching :: bool

record 'd infinite_query_result = "'d query_result" +
  hasNextPage :: bool
  isFetchingNextPage :: bool

definition isError :: "('d, 'z) query_result_scheme \<Rightarrow> bool" where
  "isError q = (case status q of LoadingError m \<Rightarrow> True | RefetchError d m \<Rightarrow> True | _ \<Rightarrow> False)"

definition isSuccess :: "('d, 'z) query_result_scheme \<Rightarrow> bool" where
  "isSuccess q = (case status q of Success d \<Rightarrow> True | _ \<Rightarrow> False)"

definition error_message :: "('d, 'z) query_result_scheme \<Rightarrow> string option" where
  "error_message q =
     (case status q of LoadingError m \<Rightarrow> Some m | RefetchError d m \<Rightarrow> Some m | _ \<Rightarrow> None)"

definition data :: "('d, 'z) query_result_scheme \<Rightarrow> 'd option" where
  "data q = (case status q of Success d \<Rightarrow> Some d | RefetchError d m \<Rightarrow> Some d | _ \<Rightarrow> None)"

definition loading :: markup where
  "loading = P ''Loading...''"

text \<open>Home page, "Basic Query": \<open>{#if $zeuQuery.isFetching} ... {:else if $zeuQuery.isSuccess}
  ... {/if}\<close>.\<close>

definition render_zeuQuery :: "ProfileView query_result \<Rightarrow> markup list" where
  "render_zeuQuery q =
     (if isFetching q then [loading]
      else if isSuccess q then
        (case data q of Some profile \<Rightarrow> [detailedProfileDisplay profile] | None \<Rightarrow> [])
      else [])"

text \<open>Home page, "Query Key as Dependency": \<open>{#if isFetching} ... {:else if isError}
  <p>{error.message}</p> {:else if isSuccess} <div>...</div> {/if}\<close>.\<close>

definition render_reactiveProfileQuery :: "ProfileView query_result \<Rightarrow> markup list" where
  "render_reactiveProfileQuery q =
     (if isFetching q then [loading]
      else if isError q then
        (case error_message q of Some m \<Rightarrow> [P m] | None \<Rightarrow> [])
      else if isSuccess q then
        (case data q of Some profile \<Rightarrow> [Div [detailedProfileDisplay profile]] | None \<Rightarrow> [])
      else [])"

text \<open>The button that loads the next page: \<open>disabled={$query.isFetchingNextPage}\<close>, with the
  spinner shown while the next page is fetched.\<close>

definition next_page_button :: "string \<Rightarrow> ('d, 'z) infinite_query_result_scheme \<Rightarrow> markup" where
  "next_page_button label q =
     Button (isFetchingNextPage q)
       ((if isFetchingNextPage q then [Spinner] else []) @ [Text label])"

text \<open>Home page, "Infinite Queries": \<open>{#if isFetching} ... {:else if isSuccess} {#each data as
  { post }} ... {/each} <button ...> {/if}\<close>.\<close>

definition render_svelteFeedQuery :: "FeedViewPost list infinite_query_result \<Rightarrow> markup list" where
  "render_svelteFeedQuery q =
     (if isFetching q then [loading]
      else if isSuccess q then
        (case data q of
           Some posts \<Rightarrow> map (\<lambda>p. postDisplay (post p)) posts @ [next_page_button ''Add Next Page'' q]
         | None \<Rightarrow> [])
      else [])"

text \<open>Search page: \<open>{#if !searchTerm} ... {:else if isFetching} ... {:else if isError} ...
  {:else if isSuccess} {#each data as profile} ... {/each} {#if hasNextPage} <button ...> {/if}
  {/if}\<close>.\<close>

definition search_hint :: markup where
  "search_hint = P (''Search by a user'' @ [CHR 0x27] @ ''s handle (eg. zeu.dev)'')"

definition render_search :: "string \<Rightarrow> ProfileView list infinite_query_result \<Rightarrow> markup list" where
  "render_search searchTerm q =
     (if \<not> truthy_string searchTerm then [search_hint]
      else if isFetching q then [loading]
      else if isError q then
        (case error_message q of Some m \<Rightarrow> [P m] | None \<Rightarrow> [])
      else if isSuccess q then
        (case data q of
           Some profiles \<Rightarrow>
             map (\<lambda>profile. searchProfileDisplay (handle profile) (avatar profile) (displayName profile))
                 profiles
             @ (if hasNextPage q then [next_page_button ''Add Next Page'' q] else [])
         | None \<Rightarrow> [])
      else [])"

section \<open>Basic facts\<close>

lemma flat_concat: "flat xss = concat xss"
  by (induction xss) simp_all

lemma truthy_object_iff: "truthy_object v \<longleftrightarrow> v \<noteq> None"
  by (cases v) (simp_all add: truthy_object_def)

lemma js_or_absent: "js_or None d = d"
  by (simp add: js_or_def)

lemma js_or_empty: "js_or (Some []) d = d"
  by (simp add: js_or_def truthy_string_def)

lemma js_or_present: "s \<noteq> [] \<Longrightarrow> js_or (Some s) d = s"
  by (simp add: js_or_def truthy_string_def)

lemma setSorting_query_pages: "query_pages (setSorting updater st) = query_pages st"
  by (simp add: setSorting_def Let_def)

lemma effect_setGlobalFilter_query_pages: "query_pages (effect_setGlobalFilter st) = query_pages st"
  by (simp add: effect_setGlobalFilter_def)

lemma input_tableSearchTerm_query_pages: "query_pages (input_tableSearchTerm v st) = query_pages st"
  by (simp add: input_tableSearchTerm_def)

lemma searchQuery_request_pageParam:
  "searchQuery_request debouncedSearchTerm pageParam = searchQuery_request debouncedSearchTerm pageParam'"
  by (simp add: searchQuery_request_def)

section \<open>Paging by cursor\<close>

text \<open>
  C1: every call of \<open>fetchNextPage\<close> is to fetch the page that follows the last one, by
  handing the last page's cursor to the upstream call. The page functions of the author
  feed, the Svelte feed and the followers query pass \<open>cursor: pageParam\<close>; the page function
  of the actor search takes no argument and sends \<open>searchActors({ q })\<close> without a cursor.
  Against an upstream whose first page of actors is \<open>[zeu.dev]\<close> with cursor \<open>c1\<close> and whose
  page at \<open>c1\<close> is \<open>[zeufan.bsky.social]\<close> without a cursor, the next page of the search for
  \<open>zeu\<close> is the first page again: the collection holds \<open>zeu.dev\<close> twice and its last
  cursor is still present.
\<close>

theorem searchQuery_next_page_repeats_first_page:
  "getNextPageParam (queryFn two_page_agent (searchQuery_request ''zeu'') initialPageParam) = Some ''c1''
   \<and> searchQuery_request ''zeu'' ''c1'' = SearchActors ''zeu'' None
   \<and> call_cursor (searchQuery_request ''zeu'' ''c1'') = None
   \<and> call_cursor (authorFeedQuery_request ''zeu.dev'' ''c1'') = Some ''c1''
   \<and> call_cursor (svelteFeedQuery_request ''c1'') = Some ''c1''
   \<and> call_cursor (followingQuery_request ''zeu.dev'' ''c1'') = Some ''c1''
   \<and> fetchNextPage (queryFn two_page_agent (searchQuery_request ''zeu''))
        (fetchFirstPage (queryFn two_page_agent (searchQuery_request ''zeu'')))
      = [\<lparr>cursor = Some ''c1'', actors = [zeu_dev]\<rparr>, \<lparr>cursor = Some ''c1'', actors = [zeu_dev]\<rparr>]
   \<and> searchQuery_select
        (fetchNextPage (queryFn two_page_agent (searchQuery_request ''zeu''))
          (fetchFirstPage (queryFn two_page_agent (searchQuery_request ''zeu''))))
      = [zeu_dev, zeu_dev]"
  by (simp add: getNextPageParam_def queryFn_def searchQuery_request_def followingQuery_request_def
        authorFeedQuery_request_def svelteFeedQuery_request_def
        two_page_agent_def fetchNextPage_def fetchFirstPage_def initialPageParam_def
        searchQuery_select_def)

section \<open>Flattening the pages\<close>

text \<open>
  C6: the output transform of the actor search and of the followers query maps two
  pages, in the order they were fetched, to the items of the first followed by the items
  of the second (and any number of pages to the concatenation of their items in page
  order); changing the sorting through \<open>setSorting\<close>, or the global filter through the
  search input and its effect, leaves the flattened collection under the table as it was.
\<close>

theorem select_flattens_in_page_order:
  "searchQuery_select [pa, pb] = actors pa @ actors pb
   \<and> followingQuery_select [qa, qb] = followers qa @ followers qb
   \<and> searchQuery_select pages = concat (map actors pages)
   \<and> followingQuery_select pages' = concat (map followers pages')
   \<and> options_data followingQuery_select (setSorting updater st) = options_data followingQuery_select st
   \<and> options_data followingQuery_select (effect_setGlobalFilter (input_tableSearchTerm v st))
       = options_data followingQuery_select st"
  by (simp add: searchQuery_select_def followingQuery_select_def flat_concat options_data_def
        setSorting_query_pages effect_setGlobalFilter_query_pages input_tableSearchTerm_query_pages)

text \<open>The same at two pages of followers, after a sort on the handle column and a filter.\<close>

theorem select_flattens_in_page_order_witness:
  "followingQuery_select [\<lparr>cursor = Some ''c1'', followers = [zeu_dev]\<rparr>, \<lparr>cursor = None, followers = [zeufan]\<rparr>]
     = [zeu_dev, zeufan]
   \<and> options_data followingQuery_select
       (setSorting (UpdaterValue [(''handle'', True)])
          \<lparr>query_pages = Some [\<lparr>cursor = Some ''c1'', followers = [zeu_dev]\<rparr>, \<lparr>cursor = None, followers = [zeufan]\<rparr>],
           sorting = [], options_state_sorting = [], tableSearchTerm = [], globalFilter = []\<rparr>)
     = [zeu_dev, zeufan]
   \<and> options_data followingQuery_select
       (effect_setGlobalFilter (input_tableSearchTerm ''fan''
          \<lparr>query_pages = Some [\<lparr>cursor = Some ''c1'', followers = [zeu_dev]\<rparr>, \<lparr>cursor = None, followers = [zeufan]\<rparr>],
           sorting = [], options_state_sorting = [], tableSearchTerm = [], globalFilter = []\<rparr>))
     = [zeu_dev, zeufan]"
  using select_flattens_in_page_order
    [where qa = "\<lparr>cursor = Some ''c1'', followers = [zeu_dev]\<rparr>"
       and qb = "\<lparr>cursor = None, followers = [zeufan]\<rparr>"
       and updater = "UpdaterValue [(''handle'', True)]"
       and v = "''fan''"
       and st = "\<lparr>query_pages = Some [\<lparr>cursor = Some ''c1'', followers = [zeu_dev]\<rparr>, \<lparr>cursor = None, followers = [zeufan]\<rparr>],
                  sorting = [], options_state_sorting = [], tableSearchTerm = [], globalFilter = []\<rparr>"]
  by (simp add: options_data_def)

section \<open>The author feed without reposts and replies\<close>

text \<open>
  C7: the output transform of the author feed query is a function of the fetched pages
  alone: it flattens them in order and keeps exactly the posts that have neither a
  \<open>reason\<close> (repost marker) nor a \<open>reply\<close> (reply marker). A post is in the result if and only
  if it is on some page and carries neither marker.
\<close>

theorem authorFeedQuery_select_excludes_reposts_and_replies:
  "authorFeedQuery_select pages
     = filter (\<lambda>p. reason p = None \<and> reply p = None) (concat (map feed pages))
   \<and> (p \<in> set (authorFeedQuery_select pages)
        \<longleftrightarrow> (\<exists>pg \<in> set pages. p \<in> set (feed pg)) \<and> reason p = None \<and> reply p = None)"
  by (auto simp add: authorFeedQuery_select_def flat_concat truthy_object_iff)

text \<open>Two pages holding a plain post, a repost, a reply and another plain post: the
  plain posts remain, in their order.\<close>

theorem authorFeedQuery_select_excludes_reposts_and_replies_witness:
  "authorFeedQuery_select
     [\<lparr>cursor = Some ''c1'',
       feed = [\<lparr>post = \<lparr>author = zeu_dev, record_text = ''hello'', likeCount = Some 3\<rparr>,
                 reply = None, reason = None\<rparr>,
               \<lparr>post = \<lparr>author = zeufan, record_text = ''shared'', likeCount = None\<rparr>,
                 reply = None, reason = Some (ReasonRepost zeu_dev)\<rparr>]\<rparr>,
      \<lparr>cursor = None,
       feed = [\<lparr>post = \<lparr>author = zeu_dev, record_text = ''answer'', likeCount = Some 0\<rparr>,
                 reply = Some (ReplyRef \<lparr>author = zeufan, record_text = ''shared'', likeCount = None\<rparr>
                                        \<lparr>author = zeufan, record_text = ''shared'', likeCount = None\<rparr>),
                 reason = None\<rparr>,
               \<lparr>post = \<lparr>author = zeu_dev, record_text = ''bye'', likeCount = Some 1\<rparr>,
                 reply = None, reason = None\<rparr>]\<rparr>]
   = [\<lparr>post = \<lparr>author = zeu_dev, record_text = ''hello'', likeCount = Some 3\<rparr>,
        reply = None, reason = None\<rparr>,
      \<lparr>post = \<lparr>author = zeu_dev, record_text = ''bye'', likeCount = Some 1\<rparr>,
        reply = None, reason = None\<rparr>]"
  using authorFeedQuery_select_excludes_reposts_and_replies
    [where pages =
      "[\<lparr>cursor = Some ''c1'',
         feed = [\<lparr>post = \<lparr>author = zeu_dev, record_text = ''hello'', likeCount = Some 3\<rparr>,
                   reply = None, reason = None\<rparr>,
                 \<lparr>post = \<lparr>author = zeufan, record_text = ''shared'', likeCount = None\<rparr>,
                   reply = None, reason = Some (ReasonRepost zeu_dev)\<rparr>]\<rparr>,
        \<lparr>cursor = None,
         feed = [\<lparr>post = \<lparr>author = zeu_dev, record_text = ''answer'', likeCount = Some 0\<rparr>,
                   reply = Some (ReplyRef \<lparr>author = zeufan, record_text = ''shared'', likeCount = None\<rparr>
                                          \<lparr>author = zeufan, record_text = ''shared'', likeCount = None\<rparr>),
                   reason = None\<rparr>,
                 \<lparr>post = \<lparr>author = zeu_dev, record_text = ''bye'', likeCount = Some 1\<rparr>,
                   reply = None, reason = None\<rparr>]\<rparr>]"]
  by simp

section \<open>Failed fetches in the templates\<close>

text \<open>
  C9: a failed fetch is to show its error as a message to the user, for every query.
  The templates of the search query and of the reactive profile query have an
  \<open>isError\<close> branch that prints \<open>error.message\<close>; the templates of \<open>zeuQuery\<close> and of
  \<open>svelteFeedQuery\<close> have none, so a failed fetch of either renders nothing at all.
\<close>

theorem failed_zeuQuery_shows_no_message:
  "render_zeuQuery \<lparr>status = LoadingError ''Network Error'', isFetching = False\<rparr> = []
   \<and> render_svelteFeedQuery \<lparr>status = LoadingError ''Network Error'', isFetching = False,
        hasNextPage = False, isFetchingNextPage = False\<rparr> = []
   \<and> render_reactiveProfileQuery \<lparr>status = LoadingError ''Network Error'', isFetching = False\<rparr>
        = [P ''Network Error'']
   \<and> render_search ''zeu'' \<lparr>status = LoadingError ''Network Error'', isFetching = False,
        hasNextPage = False, isFetchingNextPage = False\<rparr> = [P ''Network Error'']"
  by (simp add: render_zeuQuery_def render_svelteFeedQuery_def render_reactiveProfileQuery_def
        render_search_def isSuccess_def isError_def error_message_def truthy_string_def)

section \<open>Names and handles of profiles\<close>

text \<open>
  C10: wherever a profile is rendered (a search result, a profile in detail, the author
  of a post), the name shown is \<open>N/A\<close> when \<open>displayName\<close> is absent or empty and
  \<open>displayName\<close> itself otherwise, and the handle is shown with \<open>@\<close> in front.
\<close>

theorem displayName_or_NA:
  "(displayName' = None \<or> displayName' = Some [] \<longrightarrow>
      searchProfileDisplay handle' avatar' displayName'
        = A (''/p/'' @ handle') [Img avatar' (handle' @ '' avatar''), P ''N/A'', P (''@'' @ handle')]
      \<and> basicProfileDisplay handle' avatar' displayName'
        = [Img avatar' (handle' @ '' avatar''), P ''N/A'', P (''@'' @ handle')])
   \<and> (displayName' = Some s \<and> s \<noteq> [] \<longrightarrow>
      searchProfileDisplay handle' avatar' displayName'
        = A (''/p/'' @ handle') [Img avatar' (handle' @ '' avatar''), P s, P (''@'' @ handle')]
      \<and> basicProfileDisplay handle' avatar' displayName'
        = [Img avatar' (handle' @ '' avatar''), P s, P (''@'' @ handle')])
   \<and> (displayName profile = None \<or> displayName profile = Some [] \<longrightarrow>
      detailedProfileDisplay profile
        = Output [Img (avatar profile) (handle profile @ '' avatar''), P ''N/A'',
                  P (''@'' @ handle profile), Description (description profile)])
   \<and> (displayName profile = Some t \<and> t \<noteq> [] \<longrightarrow>
      detailedProfileDisplay profile
        = Output [Img (avatar profile) (handle profile @ '' avatar''), P t,
                  P (''@'' @ handle profile), Description (description profile)])
   \<and> (displayName (author pv) = None \<or> displayName (author pv) = Some [] \<longrightarrow>
      postDisplay pv
        = Output [Img (avatar (author pv)) (handle (author pv) @ '' avatar''), P ''N/A'',
                  P (''@'' @ handle (author pv)), P (record_text pv)])
   \<and> (displayName (author pv) = Some u \<and> u \<noteq> [] \<longrightarrow>
      postDisplay pv
        = Output [Img (avatar (author pv)) (handle (author pv) @ '' avatar''), P u,
                  P (''@'' @ handle (author pv)), P (record_text pv)])"
  by (auto simp add: basicProfileDisplay_def searchProfileDisplay_def detailedProfileDisplay_def
        postDisplay_def js_or_absent js_or_empty js_or_present)

text \<open>A search result with a name, a profile without one, and a post whose author has an
  empty name.\<close>

theorem displayName_or_NA_witness:
  "searchProfileDisplay ''zeu.dev'' None (Some ''Zeu'')
     = A ''/p/zeu.dev'' [Img None ''zeu.dev avatar'', P ''Zeu'', P ''@zeu.dev'']
   \<and> detailedProfileDisplay zeu_dev
     = Output [Img None ''zeu.dev avatar'', P ''N/A'', P ''@zeu.dev'', Description None]
   \<and> postDisplay \<lparr>author = \<lparr>handle = ''bsky.app'', displayName = Some [], avatar = Some ''a.png'',
                              description = None\<rparr>,
                    record_text = ''hello'', likeCount = None\<rparr>
     = Output [Img (Some ''a.png'') ''bsky.app avatar'', P ''N/A'', P ''@bsky.app'', P ''hello'']"
  using displayName_or_NA
    [where displayName' = "Some ''Zeu''" and s = "''Zeu''" and handle' = "''zeu.dev''"
       and avatar' = None and profile = zeu_dev
       and pv = "\<lparr>author = \<lparr>handle = ''bsky.app'', displayName = Some [], avatar = Some ''a.png'',
                              description = None\<rparr>,
                    record_text = ''hello'', likeCount = None\<rparr>"]
  by (simp add: zeu_dev_def)

end
